theory Spec2Isabelle
  imports Complex_Main
begin

section \<open>Values and exceptions\<close>

text \<open>
  Decoded JSON, as \<open>response.json()\<close> hands it to the clients. A JSON object is a Python
  dict; it is kept as an association list read with \<open>map_of\<close>.
\<close>

datatype json =
    JNull
  | JBool bool
  | JInt int
  | JFloat real
  | JString string
  | JArray "json list"
  | JObject "(string \<times> json) list"

text \<open>
  The exceptions the clients see, by class. The first four are
  \<open>requests.exceptions.RequestException\<close> and its subclasses (\<open>HTTPError\<close> carries
  \<open>e.response.status_code\<close>); \<open>RequestException\<close> stands for every other subclass.
  \<open>Exception\<close> is a plain \<open>Exception(msg)\<close>; the others are the builtin classes raised by
  attribute access, indexing, \<open>raise None\<close> and file access. Every constructor carries
  \<open>str(e)\<close>.
\<close>

datatype exn =
    Timeout string
  | ConnectionError string
  | HTTPError int string
  | RequestException string
  | Exception string
  | AttributeError string
  | IndexError string
  | KeyError string
  | TypeError string
  | ValueError string
  | OSError string

text \<open>\<open>isinstance(e, requests.exceptions.RequestException)\<close>\<close>

fun is_RequestException :: "exn \<Rightarrow> bool" where
  "is_RequestException (Timeout m) = True"
| "is_RequestException (ConnectionError m) = True"
| "is_RequestException (HTTPError c m) = True"
| "is_RequestException (RequestException m) = True"
| "is_RequestException e = False"

text \<open>\<open>str(e)\<close>\<close>

fun str_exn :: "exn \<Rightarrow> string" where
  "str_exn (Timeout m) = m"
| "str_exn (ConnectionError m) = m"
| "str_exn (HTTPError c m) = m"
| "str_exn (RequestException m) = m"
| "str_exn (Exception m) = m"
| "str_exn (AttributeError m) = m"
| "str_exn (IndexError m) = m"
| "str_exn (KeyError m) = m"
| "str_exn (TypeError m) = m"
| "str_exn (ValueError m) = m"
| "str_exn (OSError m) = m"

text \<open>\<open>str(n)\<close> of an integer, as the f-strings format a status code.\<close>

fun str_nat :: "nat \<Rightarrow> string" where
  "str_nat n =
     (if n < 10 then [''0123456789'' ! n]
      else str_nat (n div 10) @ [''0123456789'' ! (n mod 10)])"

declare str_nat.simps [simp del]

definition str_int :: "int \<Rightarrow> string" where
  "str_int i = (if i < 0 then ''-'' @ str_nat (nat (- i)) else str_nat (nat i))"

text \<open>\<open>type(v).__name__\<close> of a decoded JSON value.\<close>

fun py_type_name :: "json \<Rightarrow> string" where
  "py_type_name JNull = ''NoneType''"
| "py_type_name (JBool b) = ''bool''"
| "py_type_name (JInt i) = ''int''"
| "py_type_name (JFloat r) = ''float''"
| "py_type_name (JString s) = ''str''"
| "py_type_name (JArray xs) = ''list''"
| "py_type_name (JObject kvs) = ''dict''"

definition quoted :: "string \<Rightarrow> string" where
  "quoted s = [CHR 0x27] @ s @ [CHR 0x27]"

text \<open>\<open>d.get(key, default)\<close>: only a dict has the method.\<close>

fun py_get :: "json \<Rightarrow> string \<Rightarrow> json \<Rightarrow> exn + json" where
  "py_get (JObject kvs) key dflt =
     Inr (case map_of kvs key of None \<Rightarrow> dflt | Some v \<Rightarrow> v)"
| "py_get v key dflt =
     Inl (AttributeError
       (quoted (py_type_name v) @ '' object has no attribute '' @ quoted ''get''))"

text \<open>Truth value of a decoded JSON value, as \<open>x if embeddings else y\<close> tests it.\<close>

fun py_truthy :: "json \<Rightarrow> bool" where
  "py_truthy JNull = False"
| "py_truthy (JBool b) = b"
| "py_truthy (JInt i) = (i \<noteq> 0)"
| "py_truthy (JFloat r) = (r \<noteq> 0)"
| "py_truthy (JString s) = (s \<noteq> [])"
| "py_truthy (JArray xs) = (xs \<noteq> [])"
| "py_truthy (JObject kvs) = (kvs \<noteq> [])"

section \<open>Language-code tables\<close>

text \<open>
  \<open>lang_mapping\<close> of \<open>STTServiceClient.transcribe\<close> and of \<open>TTSServiceClient.synthesize\<close>,
  each read with \<open>lang_mapping.get(language, language)\<close>.
\<close>

definition stt_lang_mapping :: "(string \<times> string) list" where
  "stt_lang_mapping =
     [(''zh-TW'', ''zh''), (''zh-CN'', ''zh''), (''zh'', ''zh''),
      (''en-US'', ''en''), (''en'', ''en'')]"

definition stt_language :: "string \<Rightarrow> string" where
  "stt_language language =
     (case map_of stt_lang_mapping language of None \<Rightarrow> language | Some l \<Rightarrow> l)"

definition tts_lang_mapping :: "(string \<times> string) list" where
  "tts_lang_mapping =
     [(''zh-TW'', ''zh-tw''), (''zh-CN'', ''zh-cn''), (''zh'', ''zh-tw''),
      (''en-US'', ''en''), (''en'', ''en'')]"

definition tts_language :: "string \<Rightarrow> string" where
  "tts_language language =
     (case map_of tts_lang_mapping language of None \<Rightarrow> language | Some l \<Rightarrow> l)"

section \<open>The retry decorator\<close>

text \<open>
  \<open>with_retry(max_retries, backoff_factor)(func)\<close>. The wrapped call \<open>func\<close> acts on the
  world \<open>'s\<close> and returns a value or raises; \<open>sleep\<close> is \<open>time.sleep\<close> on the same world.
  \<open>retry_loop\<close> is the body of \<open>for attempt in range(max_retries + 1)\<close> from \<open>attempt\<close> on,
  with the statement after the loop, \<open>raise last_exception\<close>, as its last branch
  (raising \<open>None\<close> is a \<open>TypeError\<close>). \<open>time.sleep\<close> refuses a negative duration with a
  \<open>ValueError\<close>, which leaves the handler it is raised in. The waiting time is the
  product \<open>backoff_factor * (2 ** attempt)\<close>, taken here over the reals: scaling a binary
  float by a power of two is exact, so the product is the value the source computes.
\<close>

function retry_loop ::
  "(real \<Rightarrow> 's \<Rightarrow> 's) \<Rightarrow> int \<Rightarrow> real \<Rightarrow> ('s \<Rightarrow> (exn + 'a) \<times> 's) \<Rightarrow>
   int \<Rightarrow> exn option \<Rightarrow> 's \<Rightarrow> (exn + 'a) \<times> 's" where
  "retry_loop sleep max_retries backoff_factor func attempt last_exception s =
     (if attempt < max_retries + 1 then
        (case func s of
           (Inr v, s') \<Rightarrow> (Inr v, s')
         | (Inl e, s') \<Rightarrow>
             if is_RequestException e then
               if attempt < max_retries then
                 if backoff_factor * 2 ^ nat attempt < 0 then
                   (Inl (ValueError ''sleep length must be non-negative''), s')
                 else
                   retry_loop sleep max_retries backoff_factor func (attempt + 1) (Some e)
                     (sleep (backoff_factor * 2 ^ nat attempt) s')
               else (Inl e, s')
             else (Inl e, s'))
      else
        (case last_exception of
           None \<Rightarrow> (Inl (TypeError ''exceptions must derive from BaseException''), s)
         | Some e \<Rightarrow> (Inl e, s)))"
  by pat_completeness auto
termination
  by (relation "measure (\<lambda>(sl, m, b, f, a, l, s). nat (m + 1 - a))") auto

declare retry_loop.simps [simp del]

definition with_retry ::
  "(real \<Rightarrow> 's \<Rightarrow> 's) \<Rightarrow> int \<Rightarrow> real \<Rightarrow> ('s \<Rightarrow> (exn + 'a) \<times> 's) \<Rightarrow>
   's \<Rightarrow> (exn + 'a) \<times> 's" where
  "with_retry sleep max_retries backoff_factor func s =
     retry_loop sleep max_retries backoff_factor func 0 None s"

text \<open>
  A simulated world for the decorator: it counts the calls made and logs every sleep.
  \<open>scripted outcomes\<close> is a call whose \<open>n\<close>-th invocation (from 0) has the outcome
  \<open>outcomes n\<close>.
\<close>

record sim =
  calls :: nat
  sleeps :: "real list"

definition sim_sleep :: "real \<Rightarrow> sim \<Rightarrow> sim" where
  "sim_sleep t w = w\<lparr>sleeps := sleeps w @ [t]\<rparr>"

definition scripted :: "(nat \<Rightarrow> exn + 'a) \<Rightarrow> sim \<Rightarrow> (exn + 'a) \<times> sim" where
  "scripted outcomes w = (outcomes (calls w), w\<lparr>calls := Suc (calls w)\<rparr>)"

definition sim0 :: sim where
  "sim0 = \<lparr>calls = 0, sleeps = []\<rparr>"

text \<open>The backoff schedule: the sleeps after attempts \<open>0, \<dots>, k - 1\<close>.\<close>

definition backoff_schedule :: "real \<Rightarrow> nat \<Rightarrow> real list" where
  "backoff_schedule backoff_factor k = map (\<lambda>i. backoff_factor * 2 ^ i) [0..<k]"

text \<open>The simulated backend of the retry tests: \<open>N\<close> transient failures, then success.\<close>

definition flaky :: "nat \<Rightarrow> nat \<Rightarrow> exn + string" where
  "flaky N i = (if i < N then Inl (ConnectionError ''500'') else Inr ''ok'')"

section \<open>The world outside the clients\<close>

text \<open>
  What the \<open>requests\<close> library returns for one HTTP exchange. \<open>json_body\<close> is the outcome
  of \<open>response.json()\<close>: the decoded body, or the exception the decoder raises.
\<close>

record response =
  status_code :: int
  reason :: string
  content :: string
  json_body :: "exn + json"

datatype payload =
    NoPayload
  | Multipart "(string \<times> string) list" "(string \<times> string) list"
  | JsonPayload json

record http_request =
  req_method :: string
  req_url :: string
  req_timeout :: int
  req_payload :: payload

record chat_request =
  chat_model :: string
  chat_messages :: "(string \<times> string) list"
  chat_max_tokens :: int
  chat_extra_body :: json

text \<open>
  The operations of the outside world on its state \<open>'s\<close>: one HTTP exchange through
  \<open>requests\<close> (for a call through a session, with the transport-level retries of the
  mounted adapter inside it),
  \<open>open(path, 'rb')\<close>, writing a named temporary file in a directory, \<open>time.sleep\<close>,
  \<open>str\<close> of a decoded JSON value inside an f-string, and the two calls of the OpenAI
  client (\<open>models.list()\<close> giving the model ids, \<open>chat.completions.create\<close> giving the
  message contents of the choices).
\<close>

record 's env =
  http :: "http_request \<Rightarrow> 's \<Rightarrow> (exn + response) \<times> 's"
  open_rb :: "string \<Rightarrow> 's \<Rightarrow> (exn + string) \<times> 's"
  write_temp_wav :: "string \<Rightarrow> string \<Rightarrow> 's \<Rightarrow> (exn + string) \<times> 's"
  time_sleep :: "real \<Rightarrow> 's \<Rightarrow> 's"
  str_json :: "json \<Rightarrow> string"
  models_list :: "'s \<Rightarrow> (exn + string list) \<times> 's"
  chat_completions_create :: "chat_request \<Rightarrow> 's \<Rightarrow> (exn + string list) \<times> 's"

text \<open>Sequencing of calls that may raise: the first exception ends the sequence.\<close>

definition and_then ::
  "('s \<Rightarrow> (exn + 'a) \<times> 's) \<Rightarrow> ('a \<Rightarrow> 's \<Rightarrow> (exn + 'b) \<times> 's) \<Rightarrow> 's \<Rightarrow> (exn + 'b) \<times> 's" where
  "and_then m f s = (case m s of (Inl e, s') \<Rightarrow> (Inl e, s') | (Inr v, s') \<Rightarrow> f v s')"

definition pure :: "exn + 'a \<Rightarrow> 's \<Rightarrow> (exn + 'a) \<times> 's" where
  "pure r s = (r, s)"

section \<open>ServiceSession\<close>

text \<open>
  The source's message literals are Chinese; they are given as their UTF-8 bytes:
  "service request timed out", "service connection failed", "service HTTP error: ".
\<close>

definition msg_service :: string where
  "msg_service = [CHR 0xE6, CHR 0x9C, CHR 0x8D, CHR 0xE5, CHR 0x8B, CHR 0x99]"

definition msg_error_colon :: string where
  "msg_error_colon = [CHR 0xE9, CHR 0x8C, CHR 0xAF, CHR 0xE8, CHR 0xAA, CHR 0xA4] @ '': ''"

definition msg_request_timeout :: string where
  "msg_request_timeout = msg_service @
     [CHR 0xE8, CHR 0xAB, CHR 0x8B, CHR 0xE6, CHR 0xB1, CHR 0x82,
      CHR 0xE8, CHR 0xB6, CHR 0x85, CHR 0xE6, CHR 0x99, CHR 0x82]"

definition msg_connection_failed :: string where
  "msg_connection_failed = msg_service @
     [CHR 0xE9, CHR 0x80, CHR 0xA3, CHR 0xE6, CHR 0x8E, CHR 0xA5,
      CHR 0xE5, CHR 0xA4, CHR 0xB1, CHR 0xE6, CHR 0x95, CHR 0x97]"

definition msg_http_error :: string where
  "msg_http_error = msg_service @ ''HTTP'' @ msg_error_colon"

record service_session =
  service_name :: string

text \<open>
  \<open>response.raise_for_status()\<close> of the \<open>requests\<close> library: an \<open>HTTPError\<close> for a status
  from 400 to 599, nothing otherwise.
\<close>

definition raise_for_status :: "string \<Rightarrow> response \<Rightarrow> exn + response" where
  "raise_for_status u r =
     (if 400 \<le> status_code r \<and> status_code r < 500 then
        Inl (HTTPError (status_code r)
          (str_int (status_code r) @ '' Client Error: '' @ reason r @ '' for url: '' @ u))
      else if 500 \<le> status_code r \<and> status_code r < 600 then
        Inl (HTTPError (status_code r)
          (str_int (status_code r) @ '' Server Error: '' @ reason r @ '' for url: '' @ u))
      else Inr r)"

text \<open>The three \<open>except\<close> clauses of \<open>ServiceSession.request\<close>, in the source's order.\<close>

fun request_except :: "service_session \<Rightarrow> exn \<Rightarrow> exn" where
  "request_except self (Timeout m) = Exception (service_name self @ msg_request_timeout)"
| "request_except self (ConnectionError m) =
     Exception (service_name self @ msg_connection_failed)"
| "request_except self (HTTPError c m) =
     Exception (service_name self @ msg_http_error @ str_int c)"
| "request_except self e = e"

definition ServiceSession_request ::
  "'s env \<Rightarrow> service_session \<Rightarrow> string \<Rightarrow> string \<Rightarrow> int \<Rightarrow> payload \<Rightarrow>
   's \<Rightarrow> (exn + response) \<times> 's" where
  "ServiceSession_request env self method u tmo pl s =
     (case http env \<lparr>req_method = method, req_url = u, req_timeout = tmo, req_payload = pl\<rparr> s of
        (Inl e, s') \<Rightarrow> (Inl (request_except self e), s')
      | (Inr response, s') \<Rightarrow>
          (case raise_for_status u response of
             Inl e \<Rightarrow> (Inl (request_except self e), s')
           | Inr r \<Rightarrow> (Inr r, s')))"

section \<open>The clients\<close>

record client =
  service_url :: string
  timeout :: int

record session_client = client +
  session :: service_session

record tts_client = session_client +
  temp_dir :: string

record model_client = client +
  default_model :: string

definition STTServiceClient :: "string \<Rightarrow> session_client" where
  "STTServiceClient u = \<lparr>service_url = u, timeout = 60, session = \<lparr>service_name = ''STT''\<rparr>\<rparr>"

definition TTSServiceClient :: "string \<Rightarrow> string \<Rightarrow> tts_client" where
  "TTSServiceClient u tmp =
     \<lparr>service_url = u, timeout = 30, session = \<lparr>service_name = ''TTS''\<rparr>,
      temp_dir = tmp @ ''/tts_cache''\<rparr>"

definition EmbeddingServiceClient :: "string \<Rightarrow> model_client" where
  "EmbeddingServiceClient u = \<lparr>service_url = u, timeout = 30, default_model = ''nomic-embed''\<rparr>"

definition LLMServiceClient :: "string \<Rightarrow> model_client" where
  "LLMServiceClient u = \<lparr>service_url = u, timeout = 60, default_model = ''Phi-3.5-mini''\<rparr>"

text \<open>The dict a failed health check returns.\<close>

definition degraded :: "string \<Rightarrow> string \<Rightarrow> json" where
  "degraded st err = JObject [(''status'', JString st), (''error'', JString err)]"

subsection \<open>Speech to text\<close>

text \<open>
  "STT service busy, request has been queued: " and "STT service error: ", as UTF-8 bytes.
\<close>

definition msg_stt_busy :: string where
  "msg_stt_busy = ''STT'' @ msg_service @
     [CHR 0xE7, CHR 0xB9, CHR 0x81, CHR 0xE5, CHR 0xBF, CHR 0x99, CHR 0xEF, CHR 0xBC, CHR 0x8C,
      CHR 0xE8, CHR 0xAB, CHR 0x8B, CHR 0xE6, CHR 0xB1, CHR 0x82, CHR 0xE5, CHR 0xB7, CHR 0xB2,
      CHR 0xE5, CHR 0x8A, CHR 0xA0, CHR 0xE5, CHR 0x85, CHR 0xA5, CHR 0xE9, CHR 0x9A, CHR 0x8A,
      CHR 0xE5, CHR 0x88, CHR 0x97] @ '': ''"

definition msg_stt_error :: string where
  "msg_stt_error = ''STT'' @ msg_service @ msg_error_colon"

text \<open>The body of \<open>STTServiceClient.transcribe\<close>, under the decorator.\<close>

definition transcribe_body ::
  "'s env \<Rightarrow> 'x session_client_scheme \<Rightarrow> string \<Rightarrow> string \<Rightarrow> 's \<Rightarrow> (exn + json) \<times> 's" where
  "transcribe_body env self audio_file_path language =
     (let stt_lang = stt_language language in
      and_then (open_rb env audio_file_path) (\<lambda>f.
      and_then (ServiceSession_request env (session self) ''POST''
                  (service_url self @ ''/transcribe'') (timeout self)
                  (Multipart [(''audio'', f)] [(''language'', stt_lang)])) (\<lambda>response.
      and_then (pure (json_body response)) (\<lambda>result.
        if status_code response = 200 then
          pure (py_get result ''transcription'' (JString []))
        else if status_code response = 202 then
          and_then (pure (py_get result ''message'' (JString []))) (\<lambda>m.
            pure (Inl (Exception (msg_stt_busy @ str_json env m))))
        else
          and_then (pure (py_get result ''error'' (JString []))) (\<lambda>error_detail.
            pure (Inl (Exception (msg_stt_error @ str_int (status_code response) @
                                  '' - '' @ str_json env error_detail))))))))"

text \<open>\<open>@with_retry(max_retries=2, backoff_factor=0.5)\<close>\<close>

definition transcribe ::
  "'s env \<Rightarrow> 'x session_client_scheme \<Rightarrow> string \<Rightarrow> string \<Rightarrow> 's \<Rightarrow> (exn + json) \<times> 's" where
  "transcribe env self audio_file_path language =
     with_retry (time_sleep env) 2 (1 / 2) (transcribe_body env self audio_file_path language)"

definition STT_check_health ::
  "'s env \<Rightarrow> 'x session_client_scheme \<Rightarrow> 's \<Rightarrow> (exn + json) \<times> 's" where
  "STT_check_health env self s =
     (case and_then (ServiceSession_request env (session self) ''GET''
                       (service_url self @ ''/health'') 5 NoPayload)
             (\<lambda>response. pure (json_body response)) s of
        (Inl e, s') \<Rightarrow> (Inr (degraded ''unreachable'' (str_exn e)), s')
      | (Inr j, s') \<Rightarrow> (Inr j, s'))"

subsection \<open>Text to speech\<close>




definition default_languages :: json where
  "default_languages = JArray [JString ''en'', JString ''zh-tw'', JString ''zh-cn'']"

definition default_voices :: json where
  "default_voices =
     JObject [(''en'', JArray [JString ''en-US-AriaNeural'']),
              (''zh-tw'', JArray [JString ''zh-TW-HsiaoChenNeural'']),
              (''zh-cn'', JArray [JString ''zh-CN-XiaoxiaoNeural''])]"

definition get_available_languages ::
  "'s env \<Rightarrow> 'x tts_client_scheme \<Rightarrow> 's \<Rightarrow> (exn + json) \<times> 's" where
  "get_available_languages env self s =
     (case and_then (ServiceSession_request env (session self) ''GET''
                       (service_url self @ ''/languages'') 5 NoPayload)
             (\<lambda>response.
                if status_code response = 200 then
                  and_then (pure (json_body response)) (\<lambda>result.
                    pure (py_get result ''supported_languages'' (JArray [])))
                else pure (Inr default_languages)) s of
        (Inl e, s') \<Rightarrow> (Inr default_languages, s')
      | (Inr v, s') \<Rightarrow> (Inr v, s'))"

definition get_available_voices ::
  "'s env \<Rightarrow> 'x tts_client_scheme \<Rightarrow> 's \<Rightarrow> (exn + json) \<times> 's" where
  "get_available_voices env self s =
     (case and_then (ServiceSession_request env (session self) ''GET''
                       (service_url self @ ''/voices'') 5 NoPayload)
             (\<lambda>response.
                if status_code response = 200 then
                  and_then (pure (json_body response)) (\<lambda>result.
                    pure (py_get result ''voices'' (JObject [])))
                else pure (Inr default_voices)) s of
        (Inl e, s') \<Rightarrow> (Inr default_voices, s')
      | (Inr v, s') \<Rightarrow> (Inr v, s'))"

definition TTS_check_health ::
  "'s env \<Rightarrow> 'x tts_client_scheme \<Rightarrow> 's \<Rightarrow> (exn + json) \<times> 's" where
  "TTS_check_health env self s =
     (case and_then (ServiceSession_request env (session self) ''GET''
                       (service_url self @ ''/health'') 5 NoPayload)
             (\<lambda>response.
                if status_code response = 200 then pure (json_body response)
                else pure (Inr (degraded ''unhealthy''
                                  (''HTTP '' @ str_int (status_code response))))) s of
        (Inl e, s') \<Rightarrow> (Inr (degraded ''unreachable'' (str_exn e)), s')
      | (Inr j, s') \<Rightarrow> (Inr j, s'))"

subsection \<open>Embeddings\<close>

text \<open>"Embedding service error: " and "Embedding service temporarily unavailable".\<close>

definition msg_embedding_error :: string where
  "msg_embedding_error = ''Embedding'' @ msg_service @ msg_error_colon"

definition msg_embedding_unavailable :: string where
  "msg_embedding_unavailable = ''Embedding'' @ msg_service @
     [CHR 0xE6, CHR 0x9A, CHR 0xAB, CHR 0xE6, CHR 0x99, CHR 0x82, CHR 0xE4, CHR 0xB8, CHR 0x8D,
      CHR 0xE5, CHR 0x8F, CHR 0xAF, CHR 0xE7, CHR 0x94, CHR 0xA8]"

text \<open>
  \<open>get_embeddings(texts, model)\<close>; \<open>model\<close> is \<open>None\<close> or a string, and \<open>not model\<close> holds
  for \<open>None\<close> and for the empty string. The calls go through \<open>requests.post\<close> directly,
  with no \<open>raise_for_status\<close>. The two \<open>except\<close> clauses replace a \<open>RequestException\<close>
  by the "unavailable" exception and re-raise anything else.
\<close>

definition get_embeddings ::
  "'s env \<Rightarrow> 'x model_client_scheme \<Rightarrow> string list \<Rightarrow> string option \<Rightarrow>
   's \<Rightarrow> (exn + json) \<times> 's" where
  "get_embeddings env self texts model s =
     (let model' = (case model of None \<Rightarrow> default_model self
                    | Some m \<Rightarrow> if m = [] then default_model self else m) in
      case and_then
             (pure (if length texts > 1 then Inr (JArray (map JString texts))
                    else (case texts of
                            [] \<Rightarrow> Inl (IndexError ''list index out of range'')
                          | t # ts \<Rightarrow> Inr (JString t))))
             (\<lambda>input.
      and_then (http env \<lparr>req_method = ''POST'',
                           req_url = service_url self @ ''/api/embeddings'',
                           req_timeout = timeout self,
                           req_payload = JsonPayload
                             (JObject [(''model'', JString model'), (''input'', input)])\<rparr>)
             (\<lambda>response.
                if status_code response = 200 then
                  and_then (pure (json_body response)) (\<lambda>result.
                    pure (py_get result ''embeddings'' (JArray [])))
                else
                  (let error_msg = msg_embedding_error @ str_int (status_code response) in
                   pure (Inl (Exception
                     (case json_body response of
                        Inl e \<Rightarrow> error_msg
                      | Inr j \<Rightarrow>
                          (case py_get j ''detail'' (JString []) of
                             Inl e \<Rightarrow> error_msg
                           | Inr error_detail \<Rightarrow>
                               error_msg @ '' - '' @ str_json env error_detail))))))) s of
        (Inl e, s') \<Rightarrow>
          (if is_RequestException e then (Inl (Exception msg_embedding_unavailable), s')
           else (Inl e, s'))
      | (Inr v, s') \<Rightarrow> (Inr v, s'))"

text \<open>
  \<open>x[0]\<close> on a decoded JSON value. A string is held as UTF-8 bytes, so its first
  character is its first byte with the continuation bytes that follow it.
\<close>

definition is_continuation :: "char \<Rightarrow> bool" where
  "is_continuation c = (128 \<le> (of_char c :: nat) \<and> (of_char c :: nat) < 192)"

fun py_index0 :: "json \<Rightarrow> exn + json" where
  "py_index0 (JArray []) = Inl (IndexError ''list index out of range'')"
| "py_index0 (JArray (x # xs)) = Inr x"
| "py_index0 (JString []) = Inl (IndexError ''string index out of range'')"
| "py_index0 (JString (c # cs)) = Inr (JString (c # takeWhile is_continuation cs))"
| "py_index0 (JObject kvs) = Inl (KeyError ''0'')"
| "py_index0 v = Inl (TypeError (quoted (py_type_name v) @ '' object is not subscriptable''))"

text \<open>\<open>get_embedding(text, model)\<close>: \<open>embeddings[0] if embeddings else []\<close>.\<close>

definition get_embedding ::
  "'s env \<Rightarrow> 'x model_client_scheme \<Rightarrow> string \<Rightarrow> string option \<Rightarrow>
   's \<Rightarrow> (exn + json) \<times> 's" where
  "get_embedding env self txt model =
     and_then (get_embeddings env self [txt] model) (\<lambda>embeddings.
       pure (if py_truthy embeddings then py_index0 embeddings else Inr (JArray [])))"

text \<open>
  The specification's reading of the single-text operation: the first element of the
  batch of one, \<open>get_embeddings([text], model)[0]\<close>.
\<close>

definition first_of_batch ::
  "'s env \<Rightarrow> 'x model_client_scheme \<Rightarrow> string \<Rightarrow> string option \<Rightarrow>
   's \<Rightarrow> (exn + json) \<times> 's" where
  "first_of_batch env self txt model =
     and_then (get_embeddings env self [txt] model) (\<lambda>embeddings.
       pure (py_index0 embeddings))"

definition Embedding_check_health ::
  "'s env \<Rightarrow> 'x model_client_scheme \<Rightarrow> 's \<Rightarrow> (exn + json) \<times> 's" where
  "Embedding_check_health env self s =
     (case and_then (http env \<lparr>req_method = ''GET'',
                                 req_url = service_url self @ ''/health'',
                                 req_timeout = 5, req_payload = NoPayload\<rparr>)
             (\<lambda>response.
                if status_code response = 200 then pure (json_body response)
                else pure (Inr (degraded ''unhealthy''
                                  (''HTTP '' @ str_int (status_code response))))) s of
        (Inl e, s') \<Rightarrow> (Inr (degraded ''unreachable'' (str_exn e)), s')
      | (Inr j, s') \<Rightarrow> (Inr j, s'))"

subsection \<open>Language model\<close>

text \<open>
  \<open>LLMServiceClient.check_health\<close>: the model list first; if that raises, a one-token
  completion, reading \<open>response.choices[0].message.content\<close>; whatever the second probe
  raises is caught by the outer \<open>except\<close>.
\<close>

definition llm_healthy :: "'x model_client_scheme \<Rightarrow> (string \<times> json) list" where
  "llm_healthy self =
     [(''status'', JString ''healthy''), (''model'', JString (default_model self)),
      (''service'', JString ''Genie LLM Service'')]"

definition health_probe :: "'x model_client_scheme \<Rightarrow> chat_request" where
  "health_probe self =
     \<lparr>chat_model = default_model self, chat_messages = [(''user'', ''hi'')],
      chat_max_tokens = 1,
      chat_extra_body = JObject [(''size'', JInt 4096), (''temp'', JFloat (1 / 10)),
                                 (''top_k'', JInt 1), (''top_p'', JFloat (1 / 10))]\<rparr>"

definition LLM_check_health ::
  "'s env \<Rightarrow> 'x model_client_scheme \<Rightarrow> 's \<Rightarrow> (exn + json) \<times> 's" where
  "LLM_check_health env self s =
     (case models_list env s of
        (Inr models, s1) \<Rightarrow>
          (Inr (JObject (llm_healthy self @
                  [(''available_models'', JInt (int (length models)))])), s1)
      | (Inl e, s1) \<Rightarrow>
          (case and_then (chat_completions_create env (health_probe self))
                  (\<lambda>choices.
                     pure (case choices of
                             [] \<Rightarrow> Inl (IndexError ''list index out of range'')
                           | c # cs \<Rightarrow> Inr (JObject (llm_healthy self)))) s1 of
             (Inl e', s2) \<Rightarrow> (Inr (degraded ''unreachable'' (str_exn e')), s2)
           | (Inr j, s2) \<Rightarrow> (Inr j, s2)))"

section \<open>The health endpoints of the gateway\<close>

record service_config =
  STT_SERVICE_URL :: string
  TTS_SERVICE_URL :: string
  EMBEDDING_SERVICE_URL :: string
  LLM_SERVICE_URL :: string

text \<open>
  The module globals of \<open>app.py\<close>: the four clients and the two lazily created
  services (\<open>None\<close> until first use).
\<close>

record app =
  stt_client :: session_client
  tts_client :: tts_client
  embedding_client :: model_client
  llm_client :: model_client
  rag_service :: "unit option"
  crm_service :: "unit option"

definition make_app :: "service_config \<Rightarrow> string \<Rightarrow> unit option \<Rightarrow> unit option \<Rightarrow> app" where
  "make_app cfg tmp rag crm =
     \<lparr>stt_client = STTServiceClient (STT_SERVICE_URL cfg),
      tts_client = TTSServiceClient (TTS_SERVICE_URL cfg) tmp,
      embedding_client = EmbeddingServiceClient (EMBEDDING_SERVICE_URL cfg),
      llm_client = LLMServiceClient (LLM_SERVICE_URL cfg),
      rag_service = rag, crm_service = crm\<rparr>"

text \<open>\<open>h.get('status') == 'healthy'\<close>\<close>

definition status_healthy :: "json \<Rightarrow> exn + bool" where
  "status_healthy h =
     (case py_get h ''status'' JNull of Inl e \<Rightarrow> Inl e | Inr v \<Rightarrow> Inr (v = JString ''healthy''))"

text \<open>
  \<open>health_check\<close> (\<open>/api/health\<close>): a Flask response is its JSON body with its HTTP
  status. The function has no \<open>try\<close>.
\<close>

definition health_check ::
  "'s env \<Rightarrow> service_config \<Rightarrow> app \<Rightarrow> 's \<Rightarrow> (exn + json \<times> int) \<times> 's" where
  "health_check env cfg a =
     and_then (STT_check_health env (stt_client a)) (\<lambda>stt_health.
     and_then (pure (status_healthy stt_health)) (\<lambda>stt.
     and_then (TTS_check_health env (tts_client a)) (\<lambda>tts_health.
     and_then (pure (status_healthy tts_health)) (\<lambda>tts.
     and_then (Embedding_check_health env (embedding_client a)) (\<lambda>embedding_health.
     and_then (pure (status_healthy embedding_health)) (\<lambda>embedding.
     and_then (LLM_check_health env (llm_client a)) (\<lambda>llm_health.
     and_then (pure (status_healthy llm_health)) (\<lambda>llm.
       (let rag = (rag_service a \<noteq> None \<and> embedding \<and> llm);
            crm = (crm_service a \<noteq> None);
            core_microservices_ready = (stt \<and> tts \<and> embedding \<and> llm);
            overall_status = (if core_microservices_ready then ''healthy'' else ''partial'')
        in pure (Inr (JObject
             [(''status'', JString overall_status),
              (''version'', JString ''1.0.0''),
              (''services'', JObject
                 [(''stt'', JBool stt), (''tts'', JBool tts), (''embedding'', JBool embedding),
                  (''llm'', JBool llm), (''rag'', JBool rag), (''crm'', JBool crm)]),
              (''microservices'', JObject
                 [(''stt'', stt_health), (''tts'', tts_health),
                  (''embedding'', embedding_health), (''llm'', llm_health)]),
              (''config'', JObject
                 [(''stt_service_url'', JString (STT_SERVICE_URL cfg)),
                  (''tts_service_url'', JString (TTS_SERVICE_URL cfg)),
                  (''embedding_service_url'', JString (EMBEDDING_SERVICE_URL cfg)),
                  (''llm_service_url'', JString (LLM_SERVICE_URL cfg))])],
             200)))))))))))"

text \<open>
  \<open>poc_health_check\<close> (\<open>/api/v1/system/health\<close>): the four checks, then the three
  readiness entries (the \<open>and\<close> of the \<open>llm\<close> entry stops at its first false operand),
  all inside \<open>try ... except Exception\<close>.
\<close>

definition ready :: "bool \<Rightarrow> string" where
  "ready b = (if b then ''ready'' else ''not_ready'')"

definition poc_health_check :: "'s env \<Rightarrow> app \<Rightarrow> 's \<Rightarrow> (exn + json \<times> int) \<times> 's" where
  "poc_health_check env a s =
     (case
        and_then (STT_check_health env (stt_client a)) (\<lambda>stt_health.
        and_then (TTS_check_health env (tts_client a)) (\<lambda>tts_health.
        and_then (Embedding_check_health env (embedding_client a)) (\<lambda>embedding_health.
        and_then (LLM_check_health env (llm_client a)) (\<lambda>llm_health.
        and_then (pure (status_healthy stt_health)) (\<lambda>stt.
        and_then (pure (status_healthy embedding_health)) (\<lambda>embedding.
        and_then (if embedding then pure (status_healthy llm_health) else pure (Inr False)) (\<lambda>llm.
        and_then (pure (status_healthy tts_health)) (\<lambda>tts.
          (let services_status =
                 [(''whisper'', ready stt),
                  (''llm'', ready (embedding \<and> llm \<and> rag_service a \<noteq> None)),
                  (''tts'', ready tts)];
               all_ready = list_all (\<lambda>st. st = ''ready'') (map snd services_status)
           in pure (Inr (JObject
                [(''status'', JString (if all_ready then ''healthy'' else ''partial'')),
                 (''services'', JObject (map (\<lambda>(k, v). (k, JString v)) services_status))],
                200))))))))))) s of
        (Inl e, s') \<Rightarrow>
          (Inr (JObject [(''status'', JString ''unhealthy''), (''error'', JString (str_exn e))],
                500), s')
      | (Inr r, s') \<Rightarrow> (Inr r, s'))"

section \<open>Fixtures for the properties\<close>


text \<open>
  A simulated world on \<open>sim\<close>: the \<open>n\<close>-th HTTP exchange has the outcome \<open>outcomes n\<close>
  and is counted, every sleep is logged, files open and save, and the two calls of the
  OpenAI client have fixed outcomes.
\<close>

definition sim_str_json :: "json \<Rightarrow> string" where
  "sim_str_json j = (case j of JString s \<Rightarrow> s | _ \<Rightarrow> ''<json>'')"

definition sim_env ::
  "(nat \<Rightarrow> exn + response) \<Rightarrow> (exn + string list) \<Rightarrow> (exn + string list) \<Rightarrow> sim env" where
  "sim_env outcomes models choices =
     \<lparr>http = (\<lambda>rq. scripted outcomes),
      open_rb = (\<lambda>path w. (Inr ''RIFF'', w)),
      write_temp_wav = (\<lambda>dir bytes w. (Inr (dir @ ''/tmp0.wav''), w)),
      time_sleep = sim_sleep,
      str_json = sim_str_json,
      models_list = (\<lambda>w. (models, w)),
      chat_completions_create = (\<lambda>rq w. (choices, w))\<rparr>"

definition json_response :: "int \<Rightarrow> json \<Rightarrow> response" where
  "json_response code j = \<lparr>status_code = code, reason = '''', content = '''', json_body = Inr j\<rparr>"

text \<open>
  A degraded health dict: its \<open>status\<close> is \<open>unreachable\<close> or \<open>unhealthy\<close> and it has a
  string \<open>error\<close>.
\<close>

definition is_degraded :: "json \<Rightarrow> bool" where
  "is_degraded j =
     (case j of
        JObject kvs \<Rightarrow>
          (map_of kvs ''status'' = Some (JString ''unreachable'') \<or>
           map_of kvs ''status'' = Some (JString ''unhealthy'')) \<and>
          (case map_of kvs ''error'' of Some (JString e) \<Rightarrow> True | _ \<Rightarrow> False)
      | _ \<Rightarrow> False)"

text \<open>Clients, responses and worlds of the worked examples.\<close>

definition tts0 :: tts_client where
  "tts0 = TTSServiceClient ''http://localhost:5004'' ''/tmp''"

definition languages_response :: response where
  "languages_response =
     json_response 200 (JObject [(''supported_languages'', JArray [JString ''en'', JString ''ja''])])"


definition cfg0 :: service_config where
  "cfg0 = \<lparr>STT_SERVICE_URL = ''http://localhost:5003'',
            TTS_SERVICE_URL = ''http://localhost:5004'',
            EMBEDDING_SERVICE_URL = ''http://localhost:11434'',
            LLM_SERVICE_URL = ''http://127.0.0.1:8910''\<rparr>"

definition app0 :: app where
  "app0 = make_app cfg0 ''/tmp'' None None"

definition healthy_response :: response where
  "healthy_response = json_response 200 (JObject [(''status'', JString ''healthy'')])"

text \<open>All four capabilities up; the LLM capability down; the STT health body a JSON list.\<close>

definition up_env :: "sim env" where
  "up_env = sim_env (\<lambda>i. Inr healthy_response) (Inr [''Phi-3.5-mini'']) (Inr [''hi''])"

definition llm_down_env :: "sim env" where
  "llm_down_env = sim_env (\<lambda>i. Inr healthy_response)
                    (Inl (ConnectionError ''refused'')) (Inl (ConnectionError ''refused''))"

definition odd_outcomes :: "nat \<Rightarrow> exn + response" where
  "odd_outcomes i = (if i = 0 then Inr (json_response 200 (JArray [])) else Inr healthy_response)"

definition odd_env :: "sim env" where
  "odd_env = sim_env odd_outcomes (Inr [''Phi-3.5-mini'']) (Inr [''hi''])"

definition embed_response :: "json \<Rightarrow> response" where
  "embed_response vectors = json_response 200 (JObject [(''embeddings'', vectors)])"

definition embed0 :: model_client where
  "embed0 = EmbeddingServiceClient ''http://localhost:11434''"

section \<open>Language mapping\<close>

lemma stt_language_cases:
  "stt_language l =
     (if l = ''zh-TW'' \<or> l = ''zh-CN'' \<or> l = ''zh'' then ''zh''
      else if l = ''en-US'' \<or> l = ''en'' then ''en'' else l)"
  by (simp add: stt_language_def stt_lang_mapping_def)

lemma tts_language_cases:
  "tts_language l =
     (if l = ''zh-TW'' \<or> l = ''zh'' then ''zh-tw''
      else if l = ''zh-CN'' then ''zh-cn''
      else if l = ''en-US'' \<or> l = ''en'' then ''en'' else l)"
  by (simp add: tts_language_def tts_lang_mapping_def)


section \<open>The retry decorator: properties\<close>


lemma retry_loop_return:
  assumes "attempt \<le> max_retries" "func s = (Inr v, s')"
  shows "retry_loop sleep max_retries bf func attempt lst s = (Inr v, s')"
  using assms by (subst retry_loop.simps) simp

lemma retry_loop_other:
  assumes "attempt \<le> max_retries" "func s = (Inl e, s')" "\<not> is_RequestException e"
  shows "retry_loop sleep max_retries bf func attempt lst s = (Inl e, s')"
  using assms by (subst retry_loop.simps) simp

lemma retry_loop_exhausted:
  assumes "attempt = max_retries" "func s = (Inl e, s')" "is_RequestException e"
  shows "retry_loop sleep max_retries bf func attempt lst s = (Inl e, s')"
  using assms by (subst retry_loop.simps) simp

lemma retry_loop_again:
  assumes "attempt < max_retries" "func s = (Inl e, s')" "is_RequestException e" "0 \<le> bf"
  shows "retry_loop sleep max_retries bf func attempt lst s =
         retry_loop sleep max_retries bf func (attempt + 1) (Some e)
           (sleep (bf * 2 ^ nat attempt) s')"
proof -
  have "\<not> bf * 2 ^ nat attempt < 0"
    using assms(4) by (simp add: mult_less_0_iff)
  with assms show ?thesis
    by (subst retry_loop.simps) simp
qed

lemma backoff_schedule_Suc:
  "backoff_schedule bf (Suc k) = backoff_schedule bf k @ [bf * 2 ^ k]"
  by (simp add: backoff_schedule_def)

lemma retry_loop_scripted_prefix:
  assumes "\<forall>i<k. \<exists>e. outcomes i = Inl e \<and> is_RequestException e"
    and "int k \<le> max_retries"
    and "0 \<le> bf"
  shows "\<exists>lst. retry_loop sim_sleep max_retries bf (scripted outcomes) 0 None sim0 =
           retry_loop sim_sleep max_retries bf (scripted outcomes) (int k) lst
             \<lparr>calls = k, sleeps = backoff_schedule bf k\<rparr>"
  using assms
proof (induction k)
  case 0
  then show ?case by (auto simp: sim0_def backoff_schedule_def)
next
  case (Suc k)
  then obtain lst where L: "retry_loop sim_sleep max_retries bf (scripted outcomes) 0 None sim0 =
           retry_loop sim_sleep max_retries bf (scripted outcomes) (int k) lst
             \<lparr>calls = k, sleeps = backoff_schedule bf k\<rparr>"
    by auto
  from Suc.prems obtain e where e: "outcomes k = Inl e" "is_RequestException e" by auto
  have lt: "int k < max_retries" using Suc.prems by simp
  have step: "scripted outcomes \<lparr>calls = k, sleeps = backoff_schedule bf k\<rparr> =
      (Inl e, \<lparr>calls = Suc k, sleeps = backoff_schedule bf k\<rparr>)"
    by (simp add: scripted_def e)
  have "retry_loop sim_sleep max_retries bf (scripted outcomes) (int k) lst
             \<lparr>calls = k, sleeps = backoff_schedule bf k\<rparr> =
        retry_loop sim_sleep max_retries bf (scripted outcomes) (int (Suc k)) (Some e)
             \<lparr>calls = Suc k, sleeps = backoff_schedule bf (Suc k)\<rparr>"
    using retry_loop_again [where func = "scripted outcomes" and sleep = sim_sleep
        and s = "\<lparr>calls = k, sleeps = backoff_schedule bf k\<rparr>", OF lt step e(2) Suc.prems(3)]
    by (simp add: sim_sleep_def backoff_schedule_Suc add.commute)
  with L show ?case by auto
qed

lemma backoff_schedule_eval:
  "backoff_schedule bf 0 = []"
  "backoff_schedule bf (Suc 0) = [bf]"
  "backoff_schedule bf 2 = [bf, bf * 2]"
proof -
  have u: "[0..<2] = [0, Suc 0]" by (simp add: upt_conv_Cons)
  show "backoff_schedule bf 0 = []" "backoff_schedule bf (Suc 0) = [bf]"
    "backoff_schedule bf 2 = [bf, bf * 2]"
    by (simp_all add: backoff_schedule_def u)
qed

text \<open>
  C2. Against a backend whose first \<open>N\<close> calls raise transient network-class errors, the
  decorator (with \<open>max_retries \<ge> 0\<close> and \<open>backoff_factor \<ge> 0\<close>) sleeps \<open>backoff_factor * 2 ^ attempt\<close> after each
  failed attempt that is followed by a retry. If call \<open>N\<close> succeeds and \<open>N \<le> max_retries\<close>,
  the wrapped call succeeds after \<open>N + 1\<close> attempts; if \<open>max_retries < N\<close>, it raises the last
  exception after exactly \<open>max_retries + 1\<close> attempts and \<open>max_retries\<close> sleeps; an exception
  that is not a \<open>RequestException\<close> propagates at once, with no further attempt and no
  further sleep (none at all when it is the first outcome).
\<close>

theorem with_retry_backoff:
  assumes "0 \<le> max_retries"
    and "\<forall>i<N. \<exists>e. outcomes i = Inl e \<and> is_RequestException e"
    and "0 \<le> bf"
  shows "(outcomes N = Inr v \<and> int N \<le> max_retries \<longrightarrow>
            with_retry sim_sleep max_retries bf (scripted outcomes) sim0 =
              (Inr v, \<lparr>calls = N + 1, sleeps = backoff_schedule bf N\<rparr>)) \<and>
         (max_retries < int N \<longrightarrow>
            with_retry sim_sleep max_retries bf (scripted outcomes) sim0 =
              (outcomes (nat max_retries),
               \<lparr>calls = nat max_retries + 1, sleeps = backoff_schedule bf (nat max_retries)\<rparr>)) \<and>
         (outcomes N = Inl x \<and> \<not> is_RequestException x \<and> int N \<le> max_retries \<longrightarrow>
            with_retry sim_sleep max_retries bf (scripted outcomes) sim0 =
              (Inl x, \<lparr>calls = N + 1, sleeps = backoff_schedule bf N\<rparr>))"
proof (intro conjI impI)
  assume a: "outcomes N = Inr v \<and> int N \<le> max_retries"
  obtain lst where L: "retry_loop sim_sleep max_retries bf (scripted outcomes) 0 None sim0 =
           retry_loop sim_sleep max_retries bf (scripted outcomes) (int N) lst
             \<lparr>calls = N, sleeps = backoff_schedule bf N\<rparr>"
    using retry_loop_scripted_prefix [OF assms(2) _ assms(3), of max_retries] a by blast
  have step: "scripted outcomes \<lparr>calls = N, sleeps = backoff_schedule bf N\<rparr> =
      (Inr v, \<lparr>calls = N + 1, sleeps = backoff_schedule bf N\<rparr>)"
    using a by (simp add: scripted_def)
  show "with_retry sim_sleep max_retries bf (scripted outcomes) sim0 =
              (Inr v, \<lparr>calls = N + 1, sleeps = backoff_schedule bf N\<rparr>)"
    unfolding with_retry_def L
    using a retry_loop_return [where func = "scripted outcomes"
        and s = "\<lparr>calls = N, sleeps = backoff_schedule bf N\<rparr>", OF _ step]
    by simp
next
  assume a: "max_retries < int N"
  define m where "m = nat max_retries"
  have m: "int m = max_retries" "m < N" using assms(1) a by (simp_all add: m_def)
  have pre: "\<forall>i<m. \<exists>e. outcomes i = Inl e \<and> is_RequestException e"
    using assms(2) m(2) by auto
  obtain lst where L: "retry_loop sim_sleep max_retries bf (scripted outcomes) 0 None sim0 =
           retry_loop sim_sleep max_retries bf (scripted outcomes) (int m) lst
             \<lparr>calls = m, sleeps = backoff_schedule bf m\<rparr>"
    using retry_loop_scripted_prefix [OF pre _ assms(3), of max_retries] m by auto
  obtain e where e: "outcomes m = Inl e" "is_RequestException e" using assms(2) m(2) by auto
  have step: "scripted outcomes \<lparr>calls = m, sleeps = backoff_schedule bf m\<rparr> =
      (Inl e, \<lparr>calls = m + 1, sleeps = backoff_schedule bf m\<rparr>)"
    by (simp add: scripted_def e)
  show "with_retry sim_sleep max_retries bf (scripted outcomes) sim0 =
              (outcomes (nat max_retries),
               \<lparr>calls = nat max_retries + 1, sleeps = backoff_schedule bf (nat max_retries)\<rparr>)"
    unfolding with_retry_def L m_def [symmetric]
    using retry_loop_exhausted [where func = "scripted outcomes"
        and s = "\<lparr>calls = m, sleeps = backoff_schedule bf m\<rparr>", OF m(1) step e(2)]
    by (simp add: e)
next
  assume a: "outcomes N = Inl x \<and> \<not> is_RequestException x \<and> int N \<le> max_retries"
  obtain lst where L: "retry_loop sim_sleep max_retries bf (scripted outcomes) 0 None sim0 =
           retry_loop sim_sleep max_retries bf (scripted outcomes) (int N) lst
             \<lparr>calls = N, sleeps = backoff_schedule bf N\<rparr>"
    using retry_loop_scripted_prefix [OF assms(2) _ assms(3), of max_retries] a by blast
  have step: "scripted outcomes \<lparr>calls = N, sleeps = backoff_schedule bf N\<rparr> =
      (Inl x, \<lparr>calls = N + 1, sleeps = backoff_schedule bf N\<rparr>)"
    using a by (simp add: scripted_def)
  show "with_retry sim_sleep max_retries bf (scripted outcomes) sim0 =
              (Inl x, \<lparr>calls = N + 1, sleeps = backoff_schedule bf N\<rparr>)"
    unfolding with_retry_def L
    using a retry_loop_other [where func = "scripted outcomes"
        and s = "\<lparr>calls = N, sleeps = backoff_schedule bf N\<rparr>", OF _ step]
    by simp
qed


theorem with_retry_backoff_witness:
  "(0::int) \<le> 2 \<and> (0::real) \<le> 1/2 \<and> flaky 2 0 = Inl (ConnectionError ''500'') \<and>
   flaky 2 1 = Inl (ConnectionError ''500'') \<and>
   is_RequestException (ConnectionError ''500'') \<and>
   flaky 2 2 = Inr ''ok'' \<and> int 2 \<le> 2 \<and>
   with_retry sim_sleep 2 (1/2) (scripted (flaky 2)) sim0 =
     (Inr ''ok'', \<lparr>calls = 3, sleeps = [1/2, 1]\<rparr>) \<and>
   (0::int) \<le> 1 \<and> (1::int) < int 2 \<and>
   with_retry sim_sleep 1 (1/2) (scripted (flaky 2)) sim0 =
     (Inl (ConnectionError ''500''), \<lparr>calls = 2, sleeps = [1/2]\<rparr>) \<and>
   \<not> is_RequestException (Exception ''boom'') \<and> int 0 \<le> 2 \<and>
   with_retry sim_sleep 2 (1/2) (scripted (\<lambda>i. Inl (Exception ''boom'') :: exn + string)) sim0 =
     (Inl (Exception ''boom''), \<lparr>calls = 1, sleeps = []\<rparr>)"
proof -
  have h: "\<forall>i<2. \<exists>e. flaky 2 i = Inl e \<and> is_RequestException e"
    by (simp add: flaky_def)
  have h0: "\<forall>i<(0::nat). \<exists>e. (\<lambda>i. Inl (Exception ''boom'') :: exn + string) i = Inl e \<and> is_RequestException e"
    by simp
  have a: "with_retry sim_sleep 2 (1/2) (scripted (flaky 2)) sim0 =
     (Inr ''ok'', \<lparr>calls = 3, sleeps = [1/2, 1]\<rparr>)"
    using with_retry_backoff [of 2 2 "flaky 2" "1/2" "''ok''", OF _ h]
    by (simp add: flaky_def backoff_schedule_eval)
  have b: "with_retry sim_sleep 1 (1/2) (scripted (flaky 2)) sim0 =
     (Inl (ConnectionError ''500''), \<lparr>calls = 2, sleeps = [1/2]\<rparr>)"
    using with_retry_backoff [of 1 2 "flaky 2" "1/2", OF _ h]
    by (simp add: flaky_def backoff_schedule_eval)
  have c: "with_retry sim_sleep 2 (1/2) (scripted (\<lambda>i. Inl (Exception ''boom'') :: exn + string)) sim0 =
     (Inl (Exception ''boom''), \<lparr>calls = 1, sleeps = []\<rparr>)"
    using with_retry_backoff [of 2 0 "\<lambda>i. Inl (Exception ''boom'')" "1/2" _ "Exception ''boom''", OF _ h0]
    by (simp add: backoff_schedule_eval)
  show ?thesis using a b c by (simp add: flaky_def)
qed

text \<open>
  C5. The STT and TTS language mappings are idempotent; every code in the range of a
  table maps to itself (\<open>zh\<close> for STT, \<open>zh-tw\<close> for TTS); a code that is not a key of
  the table passes through unchanged; the TTS mapping sends the bare \<open>zh\<close> to \<open>zh-tw\<close>.
\<close>

theorem language_mapping_idempotent:
  "stt_language (stt_language l) = stt_language l \<and>
   tts_language (tts_language l) = tts_language l \<and>
   (\<forall>c \<in> snd ` set stt_lang_mapping. stt_language c = c) \<and>
   (\<forall>c \<in> snd ` set tts_lang_mapping. tts_language c = c) \<and>
   (map_of stt_lang_mapping l = None \<longrightarrow> stt_language l = l) \<and>
   (map_of tts_lang_mapping l = None \<longrightarrow> tts_language l = l) \<and>
   stt_language ''zh'' = ''zh'' \<and> tts_language ''zh-tw'' = ''zh-tw'' \<and>
   tts_language ''zh'' = ''zh-tw''"
proof -
  have 1: "stt_language (stt_language l) = stt_language l"
    by (simp add: stt_language_cases)
  have 2: "tts_language (tts_language l) = tts_language l"
    by (simp add: tts_language_cases)
  have 3: "\<forall>c \<in> snd ` set stt_lang_mapping. stt_language c = c"
    by (simp add: stt_lang_mapping_def stt_language_cases)
  have 4: "\<forall>c \<in> snd ` set tts_lang_mapping. tts_language c = c"
    by (simp add: tts_lang_mapping_def tts_language_cases)
  have 5: "map_of stt_lang_mapping l = None \<longrightarrow> stt_language l = l"
    by (simp add: stt_language_def)
  have 6: "map_of tts_lang_mapping l = None \<longrightarrow> tts_language l = l"
    by (simp add: tts_language_def)
  have 7: "stt_language ''zh'' = ''zh'' \<and> tts_language ''zh-tw'' = ''zh-tw'' \<and>
   tts_language ''zh'' = ''zh-tw''"
    by (simp add: stt_language_cases tts_language_cases)
  from 1 2 3 4 5 6 7 show ?thesis by blast
qed

theorem language_mapping_idempotent_witness:
  "''en'' \<in> snd ` set stt_lang_mapping \<and> stt_language ''en'' = ''en'' \<and>
   ''zh-cn'' \<in> snd ` set tts_lang_mapping \<and> tts_language ''zh-cn'' = ''zh-cn'' \<and>
   map_of stt_lang_mapping ''ja'' = None \<and> stt_language ''ja'' = ''ja'' \<and>
   map_of tts_lang_mapping ''ja'' = None \<and> tts_language ''ja'' = ''ja''"
proof -
  have a: "''en'' \<in> snd ` set stt_lang_mapping" "''zh-cn'' \<in> snd ` set tts_lang_mapping"
    by (simp_all add: stt_lang_mapping_def tts_lang_mapping_def)
  have b: "map_of stt_lang_mapping ''ja'' = None" "map_of tts_lang_mapping ''ja'' = None"
    by (simp_all add: stt_lang_mapping_def tts_lang_mapping_def)
  show ?thesis using a b language_mapping_idempotent [of "''ja''"] by blast
qed

section \<open>Session failures and the busy response\<close>








lemma sim_env_sel [simp]:
  "http (sim_env outcomes ms cs) = (\<lambda>rq. scripted outcomes)"
  "open_rb (sim_env outcomes ms cs) = (\<lambda>path w. (Inr ''RIFF'', w))"
  "write_temp_wav (sim_env outcomes ms cs) = (\<lambda>dir bytes w. (Inr (dir @ ''/tmp0.wav''), w))"
  "time_sleep (sim_env outcomes ms cs) = sim_sleep"
  "str_json (sim_env outcomes ms cs) = sim_str_json"
  "models_list (sim_env outcomes ms cs) = (\<lambda>w. (ms, w))"
  "chat_completions_create (sim_env outcomes ms cs) = (\<lambda>rq w. (cs, w))"
  by (simp_all add: sim_env_def)

lemma scripted_sim0 [simp]:
  "scripted outcomes sim0 = (outcomes 0, \<lparr>calls = Suc 0, sleeps = []\<rparr>)"
  by (simp add: scripted_def sim0_def)








text \<open>
  The boundary of the previous theorem: a \<open>RequestException\<close> of any other subclass is
  not converted by \<open>ServiceSession.request\<close>, and the decorator of \<open>transcribe\<close> retries
  it with its schedule.
\<close>

lemma transcribe_body_unconverted:
  "transcribe_body (sim_env (\<lambda>i. Inl (RequestException m)) ms cs) stt path language
     \<lparr>calls = i, sleeps = sl\<rparr> =
   (Inl (RequestException m), \<lparr>calls = Suc i, sleeps = sl\<rparr>)"
  by (simp add: transcribe_body_def and_then_def pure_def ServiceSession_request_def scripted_def)

lemma transcribe_retries_unconverted:
  "transcribe (sim_env (\<lambda>i. Inl (RequestException m)) ms cs) stt path language sim0 =
   (Inl (RequestException m), \<lparr>calls = 3, sleeps = [1 / 2, 1]\<rparr>)"
proof -
  let ?f = "transcribe_body (sim_env (\<lambda>i. Inl (RequestException m)) ms cs) stt path language"
  have 1: "retry_loop sim_sleep 2 (1 / 2) ?f 0 None \<lparr>calls = 0, sleeps = []\<rparr> =
           retry_loop sim_sleep 2 (1 / 2) ?f 1 (Some (RequestException m))
             \<lparr>calls = Suc 0, sleeps = [1 / 2]\<rparr>"
    using retry_loop_again [where func = ?f and sleep = sim_sleep and attempt = 0
        and max_retries = 2 and bf = "1 / 2" and s = "\<lparr>calls = 0, sleeps = []\<rparr>",
        OF _ transcribe_body_unconverted]
    by (simp add: sim_sleep_def)
  have 2: "retry_loop sim_sleep 2 (1 / 2) ?f 1 (Some (RequestException m))
             \<lparr>calls = Suc 0, sleeps = [1 / 2]\<rparr> =
           retry_loop sim_sleep 2 (1 / 2) ?f 2 (Some (RequestException m))
             \<lparr>calls = Suc (Suc 0), sleeps = [1 / 2, 1]\<rparr>"
    using retry_loop_again [where func = ?f and sleep = sim_sleep and attempt = 1
        and max_retries = 2 and bf = "1 / 2" and s = "\<lparr>calls = Suc 0, sleeps = [1 / 2]\<rparr>",
        OF _ transcribe_body_unconverted]
    by (simp add: sim_sleep_def)
  have 3: "retry_loop sim_sleep 2 (1 / 2) ?f 2 (Some (RequestException m))
             \<lparr>calls = Suc (Suc 0), sleeps = [1 / 2, 1]\<rparr> =
           (Inl (RequestException m), \<lparr>calls = 3, sleeps = [1 / 2, 1]\<rparr>)"
    using retry_loop_exhausted [where func = ?f and attempt = 2 and max_retries = 2
        and s = "\<lparr>calls = Suc (Suc 0), sleeps = [1 / 2, 1]\<rparr>",
        OF _ transcribe_body_unconverted]
    by simp
  show ?thesis
    unfolding transcribe_def with_retry_def sim0_def
    by (simp add: 1 2 3)
qed

section \<open>Graceful degradation of the secondary operations\<close>

lemma is_degraded_degraded [simp]:
  "is_degraded (degraded ''unreachable'' err)" "is_degraded (degraded ''unhealthy'' err)"
  by (simp_all add: is_degraded_def degraded_def)

lemma get_available_languages_cases:
  assumes "ServiceSession_request env (session self) ''GET''
             (service_url self @ ''/languages'') 5 NoPayload s = (out, s1)"
  shows "get_available_languages env self s =
     (Inr (case out of
             Inl e \<Rightarrow> default_languages
           | Inr r \<Rightarrow>
               if status_code r = 200 then
                 (case json_body r of
                    Inl e \<Rightarrow> default_languages
                  | Inr j \<Rightarrow>
                      (case py_get j ''supported_languages'' (JArray []) of
                         Inl e \<Rightarrow> default_languages
                       | Inr v \<Rightarrow> v))
               else default_languages), s1)"
  using assms
  by (simp add: get_available_languages_def and_then_def pure_def split: sum.splits)

lemma get_available_voices_cases:
  assumes "ServiceSession_request env (session self) ''GET''
             (service_url self @ ''/voices'') 5 NoPayload s = (out, s1)"
  shows "get_available_voices env self s =
     (Inr (case out of
             Inl e \<Rightarrow> default_voices
           | Inr r \<Rightarrow>
               if status_code r = 200 then
                 (case json_body r of
                    Inl e \<Rightarrow> default_voices
                  | Inr j \<Rightarrow>
                      (case py_get j ''voices'' (JObject []) of
                         Inl e \<Rightarrow> default_voices
                       | Inr v \<Rightarrow> v))
               else default_voices), s1)"
  using assms
  by (simp add: get_available_voices_def and_then_def pure_def split: sum.splits)

lemma py_get_not_object: "\<forall>kvs. j \<noteq> JObject kvs \<Longrightarrow> \<exists>e. py_get j k d = Inl e"
  by (cases j) simp_all

text \<open>
  C8. Whatever the exchange with the backend gives, \<open>get_available_languages\<close> and
  \<open>get_available_voices\<close> return a value and never raise. After a 200 answer whose body
  is a JSON object they return its \<open>supported_languages\<close> (its \<open>voices\<close>) entry, empty
  when the entry is absent; in every other case (an exception of the session, another
  status, a body that does not decode to an object) they return the hardcoded default.
\<close>

theorem tts_listings_never_raise:
  assumes "ServiceSession_request env (session self) ''GET''
             (service_url self @ ''/languages'') 5 NoPayload s = (out, s1)"
    and "ServiceSession_request env (session self) ''GET''
             (service_url self @ ''/voices'') 5 NoPayload s = (out', s2)"
  shows
   "(\<exists>v. get_available_languages env self s = (Inr v, s1) \<and>
      (\<forall>r kvs. out = Inr r \<and> status_code r = 200 \<and> json_body r = Inr (JObject kvs) \<longrightarrow>
         v = (case map_of kvs ''supported_languages'' of None \<Rightarrow> JArray [] | Some l \<Rightarrow> l)) \<and>
      ((\<nexists>r kvs. out = Inr r \<and> status_code r = 200 \<and> json_body r = Inr (JObject kvs)) \<longrightarrow>
         v = default_languages)) \<and>
    (\<exists>v. get_available_voices env self s = (Inr v, s2) \<and>
      (\<forall>r kvs. out' = Inr r \<and> status_code r = 200 \<and> json_body r = Inr (JObject kvs) \<longrightarrow>
         v = (case map_of kvs ''voices'' of None \<Rightarrow> JObject [] | Some l \<Rightarrow> l)) \<and>
      ((\<nexists>r kvs. out' = Inr r \<and> status_code r = 200 \<and> json_body r = Inr (JObject kvs)) \<longrightarrow>
         v = default_voices))"
proof (rule conjI)
  show "\<exists>v. get_available_languages env self s = (Inr v, s1) \<and>
      (\<forall>r kvs. out = Inr r \<and> status_code r = 200 \<and> json_body r = Inr (JObject kvs) \<longrightarrow>
         v = (case map_of kvs ''supported_languages'' of None \<Rightarrow> JArray [] | Some l \<Rightarrow> l)) \<and>
      ((\<nexists>r kvs. out = Inr r \<and> status_code r = 200 \<and> json_body r = Inr (JObject kvs)) \<longrightarrow>
         v = default_languages)"
    unfolding get_available_languages_cases [OF assms(1)]
    apply (intro exI conjI)
      apply (rule refl)
     apply (auto split: sum.splits)[1]
    apply (cases out)
     apply simp
    subgoal for r
      apply (cases "json_body r")
       apply simp
      subgoal for j
        using py_get_not_object [of j "''supported_languages''" "JArray []"]
        by (auto split: sum.splits)
      done
    done
next
  show "\<exists>v. get_available_voices env self s = (Inr v, s2) \<and>
      (\<forall>r kvs. out' = Inr r \<and> status_code r = 200 \<and> json_body r = Inr (JObject kvs) \<longrightarrow>
         v = (case map_of kvs ''voices'' of None \<Rightarrow> JObject [] | Some l \<Rightarrow> l)) \<and>
      ((\<nexists>r kvs. out' = Inr r \<and> status_code r = 200 \<and> json_body r = Inr (JObject kvs)) \<longrightarrow>
         v = default_voices)"
    unfolding get_available_voices_cases [OF assms(2)]
    apply (intro exI conjI)
      apply (rule refl)
     apply (auto split: sum.splits)[1]
    apply (cases out')
     apply simp
    subgoal for r
      apply (cases "json_body r")
       apply simp
      subgoal for j
        using py_get_not_object [of j "''voices''" "JObject []"]
        by (auto split: sum.splits)
      done
    done
qed





theorem tts_listings_never_raise_witness:
  "get_available_languages (sim_env (\<lambda>i. Inr languages_response) (Inr []) (Inr [])) tts0 sim0 =
     (Inr (JArray [JString ''en'', JString ''ja'']), \<lparr>calls = 1, sleeps = []\<rparr>) \<and>
   get_available_voices (sim_env (\<lambda>i. Inr languages_response) (Inr []) (Inr [])) tts0 sim0 =
     (Inr (JObject []), \<lparr>calls = 1, sleeps = []\<rparr>) \<and>
   get_available_languages (sim_env (\<lambda>i. Inl (ConnectionError ''refused'')) (Inr []) (Inr [])) tts0 sim0 =
     (Inr default_languages, \<lparr>calls = 1, sleeps = []\<rparr>) \<and>
   get_available_voices (sim_env (\<lambda>i. Inr (json_response 503 JNull)) (Inr []) (Inr [])) tts0 sim0 =
     (Inr default_voices, \<lparr>calls = 1, sleeps = []\<rparr>)"
proof -
  let ?w = "\<lparr>calls = 1, sleeps = []\<rparr>"
  let ?e1 = "sim_env (\<lambda>i. Inr languages_response) (Inr []) (Inr [])"
  let ?e2 = "sim_env (\<lambda>i. Inl (ConnectionError ''refused'')) (Inr []) (Inr [])"
  let ?e3 = "sim_env (\<lambda>i. Inr (json_response 503 JNull)) (Inr []) (Inr [])"
  have r1: "ServiceSession_request ?e1 (session tts0) ''GET'' (service_url tts0 @ p) 5 NoPayload sim0
      = (Inr languages_response, ?w)" for p
    by (simp add: ServiceSession_request_def raise_for_status_def languages_response_def
        json_response_def)
  have r2: "ServiceSession_request ?e2 (session tts0) ''GET'' (service_url tts0 @ p) 5 NoPayload sim0
      = (Inl (Exception (''TTS'' @ msg_connection_failed)), ?w)" for p
    by (simp add: ServiceSession_request_def tts0_def TTSServiceClient_def)
  have r3: "ServiceSession_request ?e3 (session tts0) ''GET'' (service_url tts0 @ p) 5 NoPayload sim0
      = (Inl (Exception (''TTS'' @ msg_http_error @ str_int 503)), ?w)" for p
    by (simp add: ServiceSession_request_def raise_for_status_def json_response_def tts0_def
        TTSServiceClient_def)
  have a: "get_available_languages ?e1 tts0 sim0 = (Inr (JArray [JString ''en'', JString ''ja'']), ?w)"
    and b: "get_available_voices ?e1 tts0 sim0 = (Inr (JObject []), ?w)"
    using tts_listings_never_raise [OF r1 r1]
    by (auto simp: languages_response_def json_response_def)
  have c: "get_available_languages ?e2 tts0 sim0 = (Inr default_languages, ?w)"
    using tts_listings_never_raise [OF r2 r2] by auto
  have d: "get_available_voices ?e3 tts0 sim0 = (Inr default_voices, ?w)"
    using tts_listings_never_raise [OF r3 r3] by auto
  from a b c d show ?thesis by simp
qed











section \<open>Health aggregation and the embedding client\<close>

lemma status_healthy_dict [simp]:
  "status_healthy (JObject h) = Inr (map_of h ''status'' = Some (JString ''healthy''))"
  by (auto simp: status_healthy_def split: option.splits)

text \<open>
  C1. When the four health checks return dicts, \<open>health_check\<close> answers 200 with a
  report whose \<open>status\<close> is exactly \<open>healthy\<close> if all four dicts have status \<open>healthy\<close>,
  and exactly \<open>partial\<close> otherwise (three of four, any other subset, or none).
\<close>

theorem health_check_overall_status:
  assumes "STT_check_health env (stt_client a) s = (Inr (JObject h1), s1)"
    and "TTS_check_health env (tts_client a) s1 = (Inr (JObject h2), s2)"
    and "Embedding_check_health env (embedding_client a) s2 = (Inr (JObject h3), s3)"
    and "LLM_check_health env (llm_client a) s3 = (Inr (JObject h4), s4)"
  shows "\<exists>body. health_check env cfg a s = (Inr (JObject body, 200), s4) \<and>
           map_of body ''status'' =
             Some (JString
               (if map_of h1 ''status'' = Some (JString ''healthy'') \<and>
                   map_of h2 ''status'' = Some (JString ''healthy'') \<and>
                   map_of h3 ''status'' = Some (JString ''healthy'') \<and>
                   map_of h4 ''status'' = Some (JString ''healthy'')
                then ''healthy'' else ''partial''))"
  using assms
  by (simp add: health_check_def and_then_def pure_def Let_def)


lemma sim_check_health_200:
  assumes "outcomes i = Inr (json_response 200 j)"
  shows "STT_check_health (sim_env outcomes ms cs) stt \<lparr>calls = i, sleeps = sl\<rparr> =
           (Inr j, \<lparr>calls = Suc i, sleeps = sl\<rparr>)"
    and "TTS_check_health (sim_env outcomes ms cs) tts \<lparr>calls = i, sleeps = sl\<rparr> =
           (Inr j, \<lparr>calls = Suc i, sleeps = sl\<rparr>)"
    and "Embedding_check_health (sim_env outcomes ms cs) emb \<lparr>calls = i, sleeps = sl\<rparr> =
           (Inr j, \<lparr>calls = Suc i, sleeps = sl\<rparr>)"
  using assms
  by (simp_all add: STT_check_health_def TTS_check_health_def Embedding_check_health_def
      and_then_def pure_def ServiceSession_request_def raise_for_status_def scripted_def
      json_response_def)

lemma sim_LLM_check_health:
  "LLM_check_health (sim_env outcomes (Inr models) cs) llm w =
     (Inr (JObject (llm_healthy llm @ [(''available_models'', JInt (int (length models)))])), w)"
  "LLM_check_health (sim_env outcomes (Inl e) (Inl e')) llm w =
     (Inr (degraded ''unreachable'' (str_exn e')), w)"
  by (simp_all add: LLM_check_health_def and_then_def pure_def)

theorem health_check_overall_status_witness:
  "(\<exists>body s'. health_check up_env cfg0 app0 sim0 = (Inr (JObject body, 200), s') \<and>
       map_of body ''status'' = Some (JString ''healthy'')) \<and>
   (\<exists>body s'. health_check llm_down_env cfg0 app0 sim0 = (Inr (JObject body, 200), s') \<and>
       map_of body ''status'' = Some (JString ''partial''))"
proof -
  let ?h = "[(''status'', JString ''healthy'')]"
  have o: "(\<lambda>i. Inr healthy_response :: exn + response) i = Inr (json_response 200 (JObject ?h))" for i :: nat
    by (simp add: healthy_response_def)
  have a: "\<exists>body. health_check up_env cfg0 app0 sim0 =
        (Inr (JObject body, 200), \<lparr>calls = Suc (Suc (Suc 0)), sleeps = []\<rparr>) \<and>
      map_of body ''status'' =
        Some (JString
          (if map_of ?h ''status'' = Some (JString ''healthy'') \<and>
              map_of ?h ''status'' = Some (JString ''healthy'') \<and>
              map_of ?h ''status'' = Some (JString ''healthy'') \<and>
              map_of (llm_healthy (llm_client app0) @
                 [(''available_models'', JInt (int (length [''Phi-3.5-mini''])))]) ''status''
                = Some (JString ''healthy'')
           then ''healthy'' else ''partial''))"
    unfolding up_env_def sim0_def
    by (rule health_check_overall_status
        [OF sim_check_health_200(1) [OF o] sim_check_health_200(2) [OF o]
            sim_check_health_200(3) [OF o] sim_LLM_check_health(1)])
  have b: "\<exists>body. health_check llm_down_env cfg0 app0 sim0 =
        (Inr (JObject body, 200), \<lparr>calls = Suc (Suc (Suc 0)), sleeps = []\<rparr>) \<and>
      map_of body ''status'' =
        Some (JString
          (if map_of ?h ''status'' = Some (JString ''healthy'') \<and>
              map_of ?h ''status'' = Some (JString ''healthy'') \<and>
              map_of ?h ''status'' = Some (JString ''healthy'') \<and>
              map_of [(''status'', JString ''unreachable''), (''error'', JString ''refused'')] ''status''
                = Some (JString ''healthy'')
           then ''healthy'' else ''partial''))"
    unfolding llm_down_env_def sim0_def
    by (rule health_check_overall_status
        [OF sim_check_health_200(1) [OF o] sim_check_health_200(2) [OF o]
            sim_check_health_200(3) [OF o]
            sim_LLM_check_health(2) [where e' = "ConnectionError ''refused''",
              unfolded degraded_def str_exn.simps]])
  from a b show ?thesis
    by (auto simp: llm_healthy_def)
qed


lemma poc_health_check_never_raises:
  "\<exists>r s'. poc_health_check env a s = (Inr r, s')"
  unfolding poc_health_check_def by (auto split: prod.splits sum.splits)

text \<open>
  C6. The claim is that neither health endpoint lets an exception of the aggregation
  escape. \<open>poc_health_check\<close> catches it (previous lemma); \<open>health_check\<close> has no handler.
  When the STT backend answers its health request with 200 and a JSON list,
  \<open>health_check\<close> raises \<open>AttributeError\<close> after the first exchange, where
  \<open>poc_health_check\<close> returns the \<open>unhealthy\<close> report with status 500.
\<close>

theorem health_check_propagates:
  "health_check odd_env cfg0 app0 sim0 =
     (Inl (AttributeError (quoted ''list'' @ '' object has no attribute '' @ quoted ''get'')),
      \<lparr>calls = 1, sleeps = []\<rparr>) \<and>
   poc_health_check odd_env app0 sim0 =
     (Inr (JObject [(''status'', JString ''unhealthy''),
                    (''error'', JString (quoted ''list'' @ '' object has no attribute '' @
                                         quoted ''get''))], 500),
      \<lparr>calls = 3, sleeps = []\<rparr>)"
proof -
  have o0: "odd_outcomes 0 = Inr (json_response 200 (JArray []))"
    by (simp add: odd_outcomes_def)
  have o: "odd_outcomes (Suc i) = Inr (json_response 200 (JObject [(''status'', JString ''healthy'')]))"
    for i
    by (simp add: odd_outcomes_def healthy_response_def)
  note c1 = sim_check_health_200(1) [where outcomes = odd_outcomes, OF o0]
  note c2 = sim_check_health_200(2) [where outcomes = odd_outcomes, OF o]
  note c3 = sim_check_health_200(3) [where outcomes = odd_outcomes, OF o]
  have a: "health_check odd_env cfg0 app0 sim0 =
     (Inl (AttributeError (quoted ''list'' @ '' object has no attribute '' @ quoted ''get'')),
      \<lparr>calls = 1, sleeps = []\<rparr>)"
    unfolding odd_env_def sim0_def health_check_def
    by (simp add: and_then_def pure_def c1 status_healthy_def)
  have b: "poc_health_check odd_env app0 sim0 =
     (Inr (JObject [(''status'', JString ''unhealthy''),
                    (''error'', JString (quoted ''list'' @ '' object has no attribute '' @
                                         quoted ''get''))], 500),
      \<lparr>calls = 3, sleeps = []\<rparr>)"
    unfolding odd_env_def sim0_def poc_health_check_def
    by (simp add: and_then_def pure_def c1 c2 c3 sim_LLM_check_health(1) status_healthy_def)
  from a b show ?thesis by simp
qed





text \<open>
  C7. Whenever the batch of one, \<open>get_embeddings([t], model)\<close>, has a first element,
  \<open>get_embedding(t, model)\<close> returns exactly that element, from the same exchange with
  the backend; whenever the batch raises, the single-text call raises the same
  exception. In particular a list result \<open>v # vs\<close> gives \<open>v\<close>; an empty list result,
  which has no first element, gives the empty list.
\<close>

theorem get_embedding_first_of_batch:
  "(\<forall>v s1. first_of_batch env self t model s = (Inr v, s1) \<longrightarrow>
             get_embedding env self t model s = (Inr v, s1)) \<and>
   (\<forall>e s1. get_embeddings env self [t] model s = (Inl e, s1) \<longrightarrow>
             get_embedding env self t model s = (Inl e, s1)) \<and>
   (\<forall>v vs s1. get_embeddings env self [t] model s = (Inr (JArray (v # vs)), s1) \<longrightarrow>
             get_embedding env self t model s = (Inr v, s1)) \<and>
   (\<forall>s1. get_embeddings env self [t] model s = (Inr (JArray []), s1) \<longrightarrow>
             get_embedding env self t model s = (Inr (JArray []), s1))"
proof (intro conjI allI impI)
  fix v s1
  assume f: "first_of_batch env self t model s = (Inr v, s1)"
  obtain out s' where g: "get_embeddings env self [t] model s = (out, s')"
    by (cases "get_embeddings env self [t] model s") blast
  from f g obtain embs where e: "out = Inr embs" "py_index0 embs = Inr v" "s' = s1"
    by (auto simp: first_of_batch_def and_then_def pure_def split: sum.splits)
  from e(2) have "py_truthy embs"
    by (cases embs rule: py_index0.cases) simp_all
  with g e show "get_embedding env self t model s = (Inr v, s1)"
    by (simp add: get_embedding_def and_then_def pure_def)
qed (simp_all add: get_embedding_def and_then_def pure_def)

theorem get_embedding_first_of_batch_witness:
  "first_of_batch (sim_env (\<lambda>i. Inr (embed_response (JArray [JArray [JFloat (1/2), JFloat (1/4)]])))
       (Inr []) (Inr [])) embed0 ''hello'' None sim0 =
     (Inr (JArray [JFloat (1/2), JFloat (1/4)]), \<lparr>calls = 1, sleeps = []\<rparr>) \<and>
   get_embedding (sim_env (\<lambda>i. Inr (embed_response (JArray [JArray [JFloat (1/2), JFloat (1/4)]])))
       (Inr []) (Inr [])) embed0 ''hello'' None sim0 =
     (Inr (JArray [JFloat (1/2), JFloat (1/4)]), \<lparr>calls = 1, sleeps = []\<rparr>) \<and>
   get_embeddings (sim_env (\<lambda>i. Inl (ConnectionError ''refused'')) (Inr []) (Inr []))
       embed0 [''hello''] None sim0 =
     (Inl (Exception msg_embedding_unavailable), \<lparr>calls = 1, sleeps = []\<rparr>) \<and>
   get_embedding (sim_env (\<lambda>i. Inl (ConnectionError ''refused'')) (Inr []) (Inr []))
       embed0 ''hello'' None sim0 =
     (Inl (Exception msg_embedding_unavailable), \<lparr>calls = 1, sleeps = []\<rparr>) \<and>
   get_embeddings (sim_env (\<lambda>i. Inr (embed_response (JArray []))) (Inr []) (Inr []))
       embed0 [''hello''] None sim0 =
     (Inr (JArray []), \<lparr>calls = 1, sleeps = []\<rparr>) \<and>
   get_embedding (sim_env (\<lambda>i. Inr (embed_response (JArray []))) (Inr []) (Inr []))
       embed0 ''hello'' None sim0 =
     (Inr (JArray []), \<lparr>calls = 1, sleeps = []\<rparr>)"
proof -
  let ?w = "\<lparr>calls = 1, sleeps = []\<rparr>"
  let ?vec = "JArray [JFloat (1/2), JFloat (1/4)]"
  let ?e1 = "sim_env (\<lambda>i. Inr (embed_response (JArray [?vec]))) (Inr []) (Inr [])"
  let ?e2 = "sim_env (\<lambda>i. Inl (ConnectionError ''refused'')) (Inr []) (Inr [])"
  let ?e3 = "sim_env (\<lambda>i. Inr (embed_response (JArray []))) (Inr []) (Inr [])"
  have g1: "get_embeddings ?e1 embed0 [''hello''] None sim0 = (Inr (JArray [?vec]), ?w)"
    by (simp add: get_embeddings_def and_then_def pure_def embed_response_def json_response_def)
  have g2: "get_embeddings ?e2 embed0 [''hello''] None sim0 =
      (Inl (Exception msg_embedding_unavailable), ?w)"
    by (simp add: get_embeddings_def and_then_def pure_def)
  have g3: "get_embeddings ?e3 embed0 [''hello''] None sim0 = (Inr (JArray []), ?w)"
    by (simp add: get_embeddings_def and_then_def pure_def embed_response_def json_response_def)
  have f1: "first_of_batch ?e1 embed0 ''hello'' None sim0 = (Inr ?vec, ?w)"
    by (simp add: first_of_batch_def and_then_def pure_def g1)
  note T1 = get_embedding_first_of_batch [of ?e1 embed0 "''hello''" None sim0]
  note T2 = get_embedding_first_of_batch [of ?e2 embed0 "''hello''" None sim0]
  note T3 = get_embedding_first_of_batch [of ?e3 embed0 "''hello''" None sim0]
  have a: "get_embedding ?e1 embed0 ''hello'' None sim0 = (Inr ?vec, ?w)"
    using T1 f1 by blast
  have b: "get_embedding ?e2 embed0 ''hello'' None sim0 =
      (Inl (Exception msg_embedding_unavailable), ?w)"
    using T2 g2 by blast
  have c: "get_embedding ?e3 embed0 ''hello'' None sim0 = (Inr (JArray []), ?w)"
    using T3 g3 by blast
  from f1 a g2 b g3 c show ?thesis by simp
qed

end
